theory Spec2Isabelle
  imports Main "HOL-Library.Sublist"
begin

section \<open>Values shared by the pipeline\<close>

text \<open>
  Strings are lists of 8-bit characters holding the UTF-8 bytes of the source's strings.
  Every marker the code looks for (\<open>@@\<close>, \<open>+\<close>, \<open>File:\<close>, the extensions, the severities)
  is ASCII, so prefix tests, splitting at a newline and removing one leading marker
  character act on the bytes as they act on the source's code units.

  A JavaScript number that the pipeline computes is an integer or \<open>NaN\<close>. The integers
  involved (line numbers, counts, a score) are far below \<open>2^53\<close>, where the source's
  floating-point arithmetic is exact.
\<close>

datatype jsnum = Num int | NaN

text \<open>A thrown value: an \<open>Error\<close> with its message, or anything else.\<close>

datatype js_error = Error string | Thrown

text \<open>\<open>error instanceof Error ? error.message : "Unknown error"\<close>\<close>

fun error_message :: "js_error \<Rightarrow> string" where
  "error_message (Error m) = m"
| "error_message Thrown = ''Unknown error''"

text \<open>Truthiness of an optional string: \<open>undefined\<close> and the empty string are falsy.\<close>

fun truthy :: "string option \<Rightarrow> bool" where
  "truthy None = False"
| "truthy (Some s) = (s \<noteq> [])"

text \<open>\<open>a || b\<close> on an optional string with a string fallback.\<close>

fun or_else :: "string option \<Rightarrow> string \<Rightarrow> string" where
  "or_else None d = d"
| "or_else (Some s) d = (if s = [] then d else s)"

text \<open>\<open>xs.includes(v)\<close> for an array of strings: \<open>undefined\<close> is never an element.\<close>

fun js_includes :: "string list \<Rightarrow> string option \<Rightarrow> bool" where
  "js_includes xs None = False"
| "js_includes xs (Some s) = (s \<in> set xs)"

text \<open>
  The key under which an object literal is read: \<open>obj[undefined]\<close> reads the key
  \<open>"undefined"\<close>. \<open>obj_get\<close> reads an own property of an object literal written as an
  association list; \<open>None\<close> stands for a result that is not a number (\<open>undefined\<close>, or a
  member inherited from the prototype), which every arithmetic use below turns into
  \<open>NaN\<close> and every comparison into \<open>false\<close>.
\<close>

fun prop_key :: "string option \<Rightarrow> string" where
  "prop_key None = ''undefined''"
| "prop_key (Some s) = s"

definition obj_get :: "(string \<times> 'a) list \<Rightarrow> string option \<Rightarrow> 'a option" where
  "obj_get obj k = map_of obj (prop_key k)"

fun js_plus :: "jsnum \<Rightarrow> jsnum \<Rightarrow> jsnum" where
  "js_plus (Num a) (Num b) = Num (a + b)"
| "js_plus _ _ = NaN"

fun js_min :: "jsnum \<Rightarrow> jsnum \<Rightarrow> jsnum" where
  "js_min (Num a) (Num b) = Num (min a b)"
| "js_min _ _ = NaN"

fun js_max :: "jsnum \<Rightarrow> jsnum \<Rightarrow> jsnum" where
  "js_max (Num a) (Num b) = Num (max a b)"
| "js_max _ _ = NaN"

fun of_prop :: "int option \<Rightarrow> jsnum" where
  "of_prop None = NaN"
| "of_prop (Some n) = Num n"

text \<open>\<open>a >= b\<close> on two property reads: false as soon as one side is not a number.\<close>

fun js_ge :: "int option \<Rightarrow> int option \<Rightarrow> bool" where
  "js_ge (Some a) (Some b) = (a \<ge> b)"
| "js_ge _ _ = False"

section \<open>Data model\<close>

text \<open>
  Modelled from the spec: the type declarations of the module \<open>types\<close>
  (\<open>ReviewComment\<close>, \<open>ReviewResult\<close>, \<open>ReviewConfig\<close>, \<open>CodeChange\<close>, \<open>GitHunk\<close>) are
  not among the sources. The records below have the fields of the spec's data model,
  which are the fields the code reads and writes.

  \<open>ReviewComment\<close> as the provider hands it over: every field may be absent (the line
  scanner builds partial records, a decoded JSON object may lack keys), and severity
  and category are arbitrary strings until \<open>isValidComment\<close> has looked at them.
  The fields \<open>file\<close> and \<open>line\<close> of the source are \<open>comment_file\<close> and \<open>comment_line\<close>
  here, \<open>file\<close> is \<open>change_file\<close> in \<open>CodeChange\<close>, and \<open>context\<close> is \<open>context_lines\<close>: the
  plain names are reserved words or names of loop variables.
\<close>

record ReviewComment =
  comment_file :: "string option"
  comment_line :: "jsnum option"
  message :: "string option"
  severity :: "string option"
  category :: "string option"
  suggestion :: "string option"

record ReviewResult =
  comments :: "ReviewComment list"
  summary :: string
  approved :: bool
  score :: jsnum
  categories :: "(string \<times> nat) list"

text \<open>
  \<open>ReviewConfig\<close>, every field optional as in a configuration file before
  \<open>mergeWithDefaults\<close>. The floating-point \<open>temperature\<close> is left out: only the provider's
  network request reads it.
\<close>

record ReviewConfig =
  aiProvider :: "string option"
  model :: "string option"
  maxTokens :: "nat option"
  codingStandardsPath :: "string option"
  reviewPromptPath :: "string option"
  ignorePatterns :: "string list option"
  severityThreshold :: "string option"
  autoApprove :: "bool option"
  requireApprovalFor :: "string list option"

text \<open>\<open>ConfigLoader.mergeWithDefaults\<close>\<close>

definition mergeWithDefaults :: "ReviewConfig \<Rightarrow> ReviewConfig" where
  "mergeWithDefaults config =
     \<lparr> aiProvider = Some (or_else (aiProvider config) ''openai''),
       model = model config,
       maxTokens = Some (case maxTokens config of None \<Rightarrow> 2000
                         | Some n \<Rightarrow> if n = 0 then 2000 else n),
       codingStandardsPath = codingStandardsPath config,
       reviewPromptPath = reviewPromptPath config,
       ignorePatterns = Some (case ignorePatterns config of None \<Rightarrow> [] | Some ps \<Rightarrow> ps),
       severityThreshold = Some (or_else (severityThreshold config) ''medium''),
       autoApprove = Some (case autoApprove config of None \<Rightarrow> False | Some b \<Rightarrow> b),
       requireApprovalFor =
         Some (case requireApprovalFor config of None \<Rightarrow> [''error''] | Some ss \<Rightarrow> ss) \<rparr>"

section \<open>Review aggregator: validation, threshold, score, approval\<close>

definition known_severities :: "string list" where
  "known_severities = [''info'', ''warning'', ''error'']"

definition known_categories :: "string list" where
  "known_categories =
     [''code-quality'', ''security'', ''performance'', ''maintainability'',
      ''style'', ''testing'', ''documentation'']"

definition isValidComment :: "ReviewComment \<Rightarrow> bool" where
  "isValidComment comment \<longleftrightarrow>
     truthy (message comment) \<and>
     truthy (severity comment) \<and>
     js_includes known_severities (severity comment) \<and>
     truthy (category comment) \<and>
     js_includes known_categories (category comment)"

definition severityOrder :: "(string \<times> int) list" where
  "severityOrder = [(''info'', 1), (''warning'', 2), (''error'', 3)]"

definition thresholdOrder :: "(string \<times> int) list" where
  "thresholdOrder = [(''low'', 1), (''medium'', 2), (''high'', 3)]"

definition meetsSeverityThreshold :: "ReviewConfig \<Rightarrow> ReviewComment \<Rightarrow> bool" where
  "meetsSeverityThreshold config comment =
     (let threshold = or_else (severityThreshold config) ''low''
      in js_ge (obj_get severityOrder (severity comment))
               (obj_get thresholdOrder (Some threshold)))"

definition validateAndFilterComments ::
  "ReviewConfig \<Rightarrow> ReviewComment list \<Rightarrow> string \<Rightarrow> ReviewComment list" where
  "validateAndFilterComments config cs filePath =
     map (\<lambda>comment. comment\<lparr> comment_file :=
                          Some (or_else (comment_file comment) filePath) \<rparr>)
       (filter (meetsSeverityThreshold config) (filter isValidComment cs))"

definition weights :: "(string \<times> int) list" where
  "weights = [(''error'', -10), (''warning'', -5), (''info'', -1)]"

definition calculateScore :: "ReviewComment list \<Rightarrow> jsnum" where
  "calculateScore cs =
     (if length cs = 0 then Num 100
      else
        let penalty =
              fold (\<lambda>comment sum. js_plus sum (of_prop (obj_get weights (severity comment))))
                cs (Num 0)
        in js_max (Num 0) (js_min (Num 100) (js_plus (Num 100) penalty)))"

definition shouldApprove :: "ReviewConfig \<Rightarrow> ReviewComment list \<Rightarrow> bool" where
  "shouldApprove config cs =
     (if autoApprove config = Some True \<and> length cs = 0 then True
      else
        let blockingIssues =
              filter (\<lambda>comment. case requireApprovalFor config of
                                   None \<Rightarrow> False
                                 | Some ss \<Rightarrow> js_includes ss (severity comment)) cs
        in length blockingIssues = 0)"

text \<open>
  The specification's tables, written from its words for comparison with the code:
  the weight of a severity in the score, the rank of a severity and of a threshold.
\<close>

fun spec_weight :: "string option \<Rightarrow> int" where
  "spec_weight s =
     (if s = Some ''error'' then -10 else if s = Some ''warning'' then -5
      else if s = Some ''info'' then -1 else 0)"

definition spec_clamp :: "int \<Rightarrow> int \<Rightarrow> int \<Rightarrow> int" where
  "spec_clamp x lo hi = (if x < lo then lo else if hi < x then hi else x)"

fun spec_severity_rank :: "string option \<Rightarrow> nat" where
  "spec_severity_rank s =
     (if s = Some ''info'' then 1 else if s = Some ''warning'' then 2
      else if s = Some ''error'' then 3 else 0)"

fun spec_threshold_rank :: "string \<Rightarrow> nat" where
  "spec_threshold_rank t =
     (if t = ''low'' then 1 else if t = ''medium'' then 2
      else if t = ''high'' then 3 else 0)"

section \<open>String operations of the language\<close>

text \<open>\<open>strip_prefix p s\<close>: the rest of \<open>s\<close> after the prefix \<open>p\<close>; \<open>s.startsWith(p)\<close>.\<close>

fun strip_prefix :: "string \<Rightarrow> string \<Rightarrow> string option" where
  "strip_prefix [] s = Some s"
| "strip_prefix (p # ps) [] = None"
| "strip_prefix (p # ps) (c # cs) = (if p = c then strip_prefix ps cs else None)"

definition startsWith :: "string \<Rightarrow> string \<Rightarrow> bool" where
  "startsWith s p \<longleftrightarrow> strip_prefix p s \<noteq> None"

text \<open>
  \<open>s.split("\n")\<close>: the pieces between line feeds; never the empty list. The last case
  of the inner \<open>case\<close> is unreachable and only makes the function total.
\<close>

fun split_lines :: "string \<Rightarrow> string list" where
  "split_lines [] = [[]]"
| "split_lines (c # cs) =
     (if c = CHR 0x0A then [] # split_lines cs
      else (case split_lines cs of l # ls \<Rightarrow> (c # l) # ls | [] \<Rightarrow> [[c]]))"

text \<open>\<open>xs.join(sep)\<close>\<close>

fun join :: "string \<Rightarrow> string list \<Rightarrow> string" where
  "join sep [] = []"
| "join sep [x] = x"
| "join sep (x # y # ys) = x @ sep @ join sep (y # ys)"

text \<open>
  The white space that \<open>trim\<close> and \<open>parseInt\<close> skip: the language's \<open>WhiteSpace\<close> and
  \<open>LineTerminator\<close> code points, each as its UTF-8 bytes.
\<close>

definition js_whitespace :: "string list" where
  "js_whitespace =
     [[CHR 0x09], [CHR 0x0A], [CHR 0x0B], [CHR 0x0C], [CHR 0x0D], [CHR 0x20],
      [CHR 0xC2, CHR 0xA0], [CHR 0xE1, CHR 0x9A, CHR 0x80],
      [CHR 0xE2, CHR 0x80, CHR 0x80], [CHR 0xE2, CHR 0x80, CHR 0x81],
      [CHR 0xE2, CHR 0x80, CHR 0x82], [CHR 0xE2, CHR 0x80, CHR 0x83],
      [CHR 0xE2, CHR 0x80, CHR 0x84], [CHR 0xE2, CHR 0x80, CHR 0x85],
      [CHR 0xE2, CHR 0x80, CHR 0x86], [CHR 0xE2, CHR 0x80, CHR 0x87],
      [CHR 0xE2, CHR 0x80, CHR 0x88], [CHR 0xE2, CHR 0x80, CHR 0x89],
      [CHR 0xE2, CHR 0x80, CHR 0x8A], [CHR 0xE2, CHR 0x80, CHR 0xA8],
      [CHR 0xE2, CHR 0x80, CHR 0xA9], [CHR 0xE2, CHR 0x80, CHR 0xAF],
      [CHR 0xE2, CHR 0x81, CHR 0x9F], [CHR 0xE3, CHR 0x80, CHR 0x80],
      [CHR 0xEF, CHR 0xBB, CHR 0xBF]]"

text \<open>
  \<open>strip_leading table s\<close> removes from the front of \<open>s\<close> every leading occurrence of an
  entry of \<open>table\<close>. Empty entries are skipped, so each step shortens the string.
\<close>

fun leading_entry :: "string list \<Rightarrow> string \<Rightarrow> string option" where
  "leading_entry [] s = None"
| "leading_entry (w # ws) s =
     (if w = [] then leading_entry ws s
      else (case strip_prefix w s of Some r \<Rightarrow> Some r | None \<Rightarrow> leading_entry ws s))"

lemma strip_prefix_length:
  "strip_prefix p s = Some r \<Longrightarrow> length s = length p + length r"
  by (induction p s rule: strip_prefix.induct) (auto split: if_splits)

lemma leading_entry_shorter:
  "leading_entry table s = Some r \<Longrightarrow> length r < length s"
  by (induction table s rule: leading_entry.induct)
    (auto split: if_splits option.splits dest: strip_prefix_length)

function strip_leading :: "string list \<Rightarrow> string \<Rightarrow> string" where
  "strip_leading table s =
     (case leading_entry table s of None \<Rightarrow> s | Some r \<Rightarrow> strip_leading table r)"
  by pat_completeness auto
termination
  by (relation "measure (\<lambda>(table, s). length s)") (auto dest: leading_entry_shorter)


text \<open>
  \<open>s.toLowerCase()\<close>. The code compares the result only with ASCII words (extensions,
  severities), so the model lowers the ASCII capitals and the one non-ASCII code point
  whose lower case is ASCII, the Kelvin sign (bytes \<open>E2 84 AA\<close>), and keeps every other
  byte.
\<close>

definition lower_char :: "char \<Rightarrow> char" where
  "lower_char c =
     (let n = (of_char c :: nat) in if 65 \<le> n \<and> n \<le> 90 then char_of (n + 32) else c)"

fun toLowerCase :: "string \<Rightarrow> string" where
  "toLowerCase [] = []"
| "toLowerCase (c # cs) =
     (if c = CHR 0xE2 \<and> take 2 cs = [CHR 0x84, CHR 0xAA]
      then CHR ''k'' # toLowerCase (drop 2 cs)
      else lower_char c # toLowerCase cs)"

text \<open>
  \<open>parseInt(s)\<close> without a radix: leading white space, an optional sign, an optional
  \<open>0x\<close> that selects base sixteen, then the longest run of digits; no digit gives
  \<open>NaN\<close>.
\<close>

definition dec_val :: "char \<Rightarrow> nat option" where
  "dec_val c =
     (let n = (of_char c :: nat) in if 48 \<le> n \<and> n \<le> 57 then Some (n - 48) else None)"

definition hex_val :: "char \<Rightarrow> nat option" where
  "hex_val c =
     (let n = (of_char c :: nat) in
      if 48 \<le> n \<and> n \<le> 57 then Some (n - 48)
      else if 97 \<le> n \<and> n \<le> 102 then Some (n - 87)
      else if 65 \<le> n \<and> n \<le> 70 then Some (n - 55)
      else None)"

fun digit_values :: "(char \<Rightarrow> nat option) \<Rightarrow> string \<Rightarrow> nat list" where
  "digit_values dv [] = []"
| "digit_values dv (c # cs) =
     (case dv c of None \<Rightarrow> [] | Some d \<Rightarrow> d # digit_values dv cs)"

definition radix_value :: "nat \<Rightarrow> nat list \<Rightarrow> nat" where
  "radix_value R ds = foldl (\<lambda>acc d. acc * R + d) 0 ds"

definition js_parseInt :: "string \<Rightarrow> jsnum" where
  "js_parseInt s =
     (let S = strip_leading js_whitespace s;
          negative = startsWith S ''-'';
          S1 = (if startsWith S ''-'' \<or> startsWith S ''+'' then drop 1 S else S);
          hex = (startsWith S1 ''0x'' \<or> startsWith S1 ''0X'');
          Z = (if hex then digit_values hex_val (drop 2 S1) else digit_values dec_val S1);
          v = int (radix_value (if hex then 16 else 10) Z)
      in if Z = [] then NaN else Num (if negative then - v else v))"

text \<open>Template rendering of a number: decimal digits, a minus sign, or \<open>NaN\<close>.\<close>

fun show_nat :: "nat \<Rightarrow> string" where
  "show_nat n =
     (if n < 10 then [char_of (48 + n)] else show_nat (n div 10) @ [char_of (48 + n mod 10)])"

fun show_num :: "jsnum \<Rightarrow> string" where
  "show_num NaN = ''NaN''"
| "show_num (Num i) = (if i < 0 then ''-'' @ show_nat (nat (- i)) else show_nat (nat i))"

section \<open>File filter\<close>

text \<open>
  \<open>path.extname\<close> (POSIX flavour) of the platform library: trailing slashes are dropped,
  the last path component is taken, and the extension runs from its last dot to its
  end. There is none when the component has no dot, when its only dot is its first
  character, or when the component is \<open>..\<close>.
\<close>

definition strip_trailing_slashes :: "string \<Rightarrow> string" where
  "strip_trailing_slashes p = rev (dropWhile (\<lambda>c. c = CHR ''/'') (rev p))"

definition last_component :: "string \<Rightarrow> string" where
  "last_component p =
     rev (takeWhile (\<lambda>c. c \<noteq> CHR ''/'') (rev (strip_trailing_slashes p)))"

definition extname :: "string \<Rightarrow> string" where
  "extname p =
     (let base = last_component p;
          after_dot = takeWhile (\<lambda>c. c \<noteq> CHR ''.'') (rev base);
          start = length base - length after_dot - 1
      in if CHR ''.'' \<notin> set base \<or> start = 0 \<or> base = ''..'' then []
         else drop start base)"

text \<open>
  The filter object. Its field \<open>ignorePatterns\<close> is \<open>filter_ignorePatterns\<close> here, the
  configuration record owning the plain name. The glob matcher \<open>minimatch\<close> is a
  library outside the repository: it is the parameter \<open>mm\<close>, applied to a path and a
  pattern (the option \<open>dot: true\<close> is part of it).
\<close>

record FileFilter =
  filter_ignorePatterns :: "string list"
  includePatterns :: "string list"

definition getDefaultIgnorePatterns :: "string list" where
  "getDefaultIgnorePatterns =
     [''node_modules/**'', ''.git/**'', ''dist/**'', ''build/**'', ''coverage/**'',
      ''.nyc_output/**'', ''vendor/**'', ''tmp/**'', ''temp/**'', ''*.min.js'',
      ''*.min.css'', ''*.map'', ''package-lock.json'', ''yarn.lock'', ''pnpm-lock.yaml'',
      ''.env*'', ''*.log'', ''.DS_Store'', ''Thumbs.db'', ''*.pyc'', ''__pycache__/**'',
      ''.pytest_cache/**'', ''.tox/**'', ''venv/**'', ''env/**'', ''.venv/**'']"

text \<open>The constructor; an omitted argument is the empty list.\<close>

definition new_FileFilter :: "string list \<Rightarrow> string list \<Rightarrow> FileFilter" where
  "new_FileFilter ignore include =
     \<lparr> filter_ignorePatterns = getDefaultIgnorePatterns @ ignore,
       includePatterns = include \<rparr>"

definition isIgnored :: "(string \<Rightarrow> string \<Rightarrow> bool) \<Rightarrow> FileFilter \<Rightarrow> string \<Rightarrow> bool" where
  "isIgnored mm ff filePath =
     list_ex (\<lambda>pattern. mm filePath pattern) (filter_ignorePatterns ff)"

definition isIncluded :: "(string \<Rightarrow> string \<Rightarrow> bool) \<Rightarrow> FileFilter \<Rightarrow> string \<Rightarrow> bool" where
  "isIncluded mm ff filePath =
     list_ex (\<lambda>pattern. mm filePath pattern) (includePatterns ff)"

definition reviewableExtensions :: "string list" where
  "reviewableExtensions =
     [''.js'', ''.jsx'', ''.ts'', ''.tsx'', ''.py'', ''.java'', ''.cpp'', ''.c'', ''.h'',
      ''.cs'', ''.go'', ''.rs'', ''.php'', ''.rb'', ''.swift'', ''.kt'', ''.scala'',
      ''.sql'', ''.sh'', ''.bash'', ''.json'', ''.yaml'', ''.yml'', ''.md'', ''.mdx'']"

definition isReviewableFile :: "string \<Rightarrow> bool" where
  "isReviewableFile filePath =
     (let ext = toLowerCase (extname filePath) in ext \<in> set reviewableExtensions)"

definition shouldReview :: "(string \<Rightarrow> string \<Rightarrow> bool) \<Rightarrow> FileFilter \<Rightarrow> string \<Rightarrow> bool" where
  "shouldReview mm ff filePath =
     (if isIgnored mm ff filePath then False
      else if length (includePatterns ff) > 0 then isIncluded mm ff filePath
      else isReviewableFile filePath)"

definition getReviewableFiles ::
  "(string \<Rightarrow> string \<Rightarrow> bool) \<Rightarrow> FileFilter \<Rightarrow> string list \<Rightarrow> string list" where
  "getReviewableFiles mm ff files = filter (shouldReview mm ff) files"

definition languageMap :: "(string \<times> string) list" where
  "languageMap =
     [(''.js'', ''javascript''), (''.jsx'', ''javascript''), (''.ts'', ''typescript''),
      (''.tsx'', ''typescript''), (''.py'', ''python''), (''.java'', ''java''),
      (''.cpp'', ''cpp''), (''.c'', ''c''), (''.h'', ''c''), (''.cs'', ''csharp''),
      (''.go'', ''go''), (''.rs'', ''rust''), (''.php'', ''php''), (''.rb'', ''ruby''),
      (''.swift'', ''swift''), (''.kt'', ''kotlin''), (''.scala'', ''scala''),
      (''.sql'', ''sql''), (''.sh'', ''bash''), (''.bash'', ''bash''), (''.json'', ''json''),
      (''.yaml'', ''yaml''), (''.yml'', ''yaml''), (''.md'', ''markdown''),
      (''.mdx'', ''markdown'')]"

definition getLanguage :: "string \<Rightarrow> string" where
  "getLanguage filePath =
     (let ext = toLowerCase (extname filePath)
      in or_else (map_of languageMap ext) ''text'')"

section \<open>Diff parser\<close>

text \<open>
  Modelled from the spec: \<open>GitHunk\<close> and \<open>CodeChange\<close> of the module \<open>types\<close>, with the
  fields \<open>parseDiff\<close> fills. The numbers of a hunk are what \<open>parseInt\<close> returns.
\<close>

record GitHunk =
  oldStart :: jsnum
  oldLines :: jsnum
  newStart :: jsnum
  newLines :: jsnum
  lines :: "string list"

record CodeChange =
  change_file :: string
  additions :: "string list"
  deletions :: "string list"
  context_lines :: "string list"
  hunks :: "GitHunk list"

subsection \<open>The three regular expressions\<close>

text \<open>
  The line terminators of the regular-expression engine (line feed, carriage return,
  U+2028, U+2029): \<open>.\<close> matches any character but these, and with the flag \<open>m\<close> the
  anchor \<open>^\<close> matches at the start of the text and after each of them.
\<close>

definition line_terminators :: "string list" where
  "line_terminators =
     [[CHR 0x0A], [CHR 0x0D], [CHR 0xE2, CHR 0x80, CHR 0xA8], [CHR 0xE2, CHR 0x80, CHR 0xA9]]"

definition at_line_terminator :: "string \<Rightarrow> bool" where
  "at_line_terminator s = list_ex (\<lambda>t. startsWith s t) line_terminators"

text \<open>The text a greedy \<open>.*\<close> takes: everything up to the first line terminator.\<close>

fun dot_run :: "string \<Rightarrow> string" where
  "dot_run [] = []"
| "dot_run (c # cs) = (if at_line_terminator (c # cs) then [] else c # dot_run cs)"

text \<open>
  \<open>/a\/(.+) b\/(.+)/\<close>, not anchored. At a position where \<open>a/\<close> stands, the first group
  is greedy: the engine tries its lengths from the longest run of non-terminators
  down to one, and takes the first length after which \<open> b/\<close> and at least one more
  non-terminator follow; the second group is then the whole run after \<open> b/\<close>. The
  leftmost position with a match wins. The result is the pair of groups.
\<close>

fun try_header :: "string \<Rightarrow> nat \<Rightarrow> (string \<times> string) option" where
  "try_header r 0 = None"
| "try_header r (Suc k) =
     (case strip_prefix '' b/'' (drop (Suc k) r) of
        None \<Rightarrow> try_header r k
      | Some t \<Rightarrow> if dot_run t \<noteq> [] then Some (take (Suc k) r, dot_run t)
                  else try_header r k)"

definition header_at :: "string \<Rightarrow> (string \<times> string) option" where
  "header_at s =
     (case strip_prefix ''a/'' s of
        None \<Rightarrow> None
      | Some r \<Rightarrow> try_header r (length (dot_run r)))"

fun header_match :: "string \<Rightarrow> (string \<times> string) option" where
  "header_match [] = header_at []"
| "header_match (c # cs) =
     (case header_at (c # cs) of Some m \<Rightarrow> Some m | None \<Rightarrow> header_match cs)"

text \<open>
  \<open>/@@ -(\d+)(?:,(\d+))? \+(\d+)(?:,(\d+))? @@/\<close>, not anchored. A run of digits is
  followed by a comma or a blank in every match, so the greedy \<open>\d+\<close> always takes
  the whole run, and the optional group is taken exactly when a comma and a digit
  follow: no backtracking changes the outcome at a given position. The result is the
  four groups, an absent optional group being \<open>None\<close>.
\<close>

definition is_digit :: "char \<Rightarrow> bool" where
  "is_digit c \<longleftrightarrow> dec_val c \<noteq> None"

definition digit_run :: "string \<Rightarrow> string \<times> string" where
  "digit_run s = (takeWhile is_digit s, dropWhile is_digit s)"

definition optional_count :: "string \<Rightarrow> string option \<times> string" where
  "optional_count s =
     (case strip_prefix '','' s of
        None \<Rightarrow> (None, s)
      | Some r \<Rightarrow> (case digit_run r of (d, r') \<Rightarrow> if d = [] then (None, s) else (Some d, r')))"

definition hunk_header_at ::
  "string \<Rightarrow> (string \<times> string option \<times> string \<times> string option) option" where
  "hunk_header_at s =
     (case strip_prefix ''@@ -'' s of
        None \<Rightarrow> None
      | Some r1 \<Rightarrow>
          (case digit_run r1 of (g1, r2) \<Rightarrow>
             if g1 = [] then None
             else (case optional_count r2 of (g2, r3) \<Rightarrow>
               (case strip_prefix '' +'' r3 of
                  None \<Rightarrow> None
                | Some r4 \<Rightarrow>
                    (case digit_run r4 of (g3, r5) \<Rightarrow>
                       if g3 = [] then None
                       else (case optional_count r5 of (g4, r6) \<Rightarrow>
                         (case strip_prefix '' @@'' r6 of
                            None \<Rightarrow> None
                          | Some r7 \<Rightarrow> Some (g1, g2, g3, g4))))))))"

fun hunk_header_match ::
  "string \<Rightarrow> (string \<times> string option \<times> string \<times> string option) option" where
  "hunk_header_match [] = hunk_header_at []"
| "hunk_header_match (c # cs) =
     (case hunk_header_at (c # cs) of Some m \<Rightarrow> Some m | None \<Rightarrow> hunk_header_match cs)"

text \<open>
  \<open>diff.split(/^diff --git/m)\<close>. \<open>passed\<close> is the text already passed, last character
  first; \<open>skip\<close> counts the characters of a marker still to be dropped. The last case
  of the inner \<open>case\<close> is unreachable.
\<close>

definition at_line_start :: "string \<Rightarrow> bool" where
  "at_line_start passed \<longleftrightarrow>
     passed = [] \<or> list_ex (\<lambda>t. startsWith passed (rev t)) line_terminators"

fun split_files :: "string \<Rightarrow> nat \<Rightarrow> string \<Rightarrow> string list" where
  "split_files passed skip [] = [[]]"
| "split_files passed (Suc skip) (c # cs) = split_files (c # passed) skip cs"
| "split_files passed 0 (c # cs) =
     (if at_line_start passed \<and> startsWith (c # cs) ''diff --git''
      then [] # split_files (c # passed) 9 cs
      else (case split_files (c # passed) 0 cs of
              l # ls \<Rightarrow> (c # l) # ls
            | [] \<Rightarrow> [[c]]))"

subsection \<open>Scanning one file block\<close>

text \<open>
  The loop of \<open>parseDiff\<close> over the lines of one file block mutates the change record,
  the flag \<open>inHunk\<close> and the object \<open>currentHunk\<close> refers to. A hunk object stays
  reachable through \<open>currentHunk\<close> after it has been pushed onto \<open>change.hunks\<close>, so
  hunks live in a heap (address: position in \<open>heap\<close>) and both \<open>currentHunk\<close> and the
  entries of \<open>change.hunks\<close> (\<open>hunk_refs\<close>) are addresses.
\<close>

record scan_state =
  scan_additions :: "string list"
  scan_deletions :: "string list"
  scan_context :: "string list"
  hunk_refs :: "nat list"
  heap :: "GitHunk list"
  currentHunk :: "nat option"
  inHunk :: bool

definition initial_scan :: scan_state where
  "initial_scan =
     \<lparr> scan_additions = [], scan_deletions = [], scan_context = [], hunk_refs = [],
       heap = [], currentHunk = None, inHunk = False \<rparr>"

text \<open>\<open>if (currentHunk) change.hunks.push(currentHunk)\<close>\<close>

definition push_current :: "scan_state \<Rightarrow> scan_state" where
  "push_current st =
     (case currentHunk st of
        None \<Rightarrow> st
      | Some a \<Rightarrow> st\<lparr> hunk_refs := hunk_refs st @ [a] \<rparr>)"

definition new_hunk :: "string \<times> string option \<times> string \<times> string option \<Rightarrow> GitHunk" where
  "new_hunk hunkMatch =
     (case hunkMatch of (g1, g2, g3, g4) \<Rightarrow>
        \<lparr> oldStart = js_parseInt g1,
          oldLines = js_parseInt (or_else g2 ''1''),
          newStart = js_parseInt g3,
          newLines = js_parseInt (or_else g4 ''1''),
          lines = [] \<rparr>)"

definition scan_line :: "string \<Rightarrow> scan_state \<Rightarrow> scan_state" where
  "scan_line line st =
     (if startsWith line ''@@'' then
        (let st1 = push_current st in
         case hunk_header_match line of
           None \<Rightarrow> st1
         | Some hunkMatch \<Rightarrow>
             st1\<lparr> heap := heap st1 @ [new_hunk hunkMatch],
                  currentHunk := Some (length (heap st1)),
                  inHunk := True \<rparr>)
      else
        (case currentHunk st of
           None \<Rightarrow> st
         | Some a \<Rightarrow>
             if \<not> inHunk st then st
             else
               (let h = heap st ! a;
                    st1 = st\<lparr> heap := (heap st)[a := h\<lparr> lines := lines h @ [line] \<rparr>] \<rparr>
                in if startsWith line ''+'' \<and> \<not> startsWith line ''+++''
                   then st1\<lparr> scan_additions := scan_additions st1 @ [drop 1 line] \<rparr>
                   else if startsWith line ''-'' \<and> \<not> startsWith line ''---''
                   then st1\<lparr> scan_deletions := scan_deletions st1 @ [drop 1 line] \<rparr>
                   else if startsWith line '' ''
                   then st1\<lparr> scan_context := scan_context st1 @ [drop 1 line] \<rparr>
                   else st1)))"

definition scan_lines :: "string list \<Rightarrow> scan_state \<Rightarrow> scan_state" where
  "scan_lines ls st = fold scan_line ls st"

text \<open>
  Addresses stay inside the heap: what the scan reads through \<open>currentHunk\<close> and what
  \<open>finish_block\<close> resolves are hunks that were allocated.
\<close>

definition scan_ok :: "scan_state \<Rightarrow> bool" where
  "scan_ok st \<longleftrightarrow>
     (case currentHunk st of None \<Rightarrow> True | Some a \<Rightarrow> a < length (heap st)) \<and>
     list_all (\<lambda>a. a < length (heap st)) (hunk_refs st) \<and>
     (inHunk st = (currentHunk st \<noteq> None))"

text \<open>
  The end of a file block: the change record with its hunk references resolved, kept
  only if it has a hunk.
\<close>

definition finish_block :: "string \<Rightarrow> scan_state \<Rightarrow> CodeChange option" where
  "finish_block filePath st =
     (let change = \<lparr> change_file = filePath,
                     additions = scan_additions st,
                     deletions = scan_deletions st,
                     context_lines = scan_context st,
                     hunks = map (\<lambda>a. heap st ! a) (hunk_refs st) \<rparr>
      in if length (hunks change) > 0 then Some change else None)"

text \<open>
  One file block (the text between two \<open>diff --git\<close> markers), as its lines: the
  first is the header line, the loop runs over the others. \<open>None\<close> when the block is
  skipped or has no hunk, the finished change otherwise. The case of no line at all
  is unreachable, \<open>split_lines\<close> never being empty.
\<close>

fun parse_block_lines :: "string list \<Rightarrow> CodeChange option" where
  "parse_block_lines [] = None"
| "parse_block_lines (headerLine # rest) =
     (case header_match headerLine of
        None \<Rightarrow> None
      | Some fileMatch \<Rightarrow>
          finish_block (snd fileMatch) (push_current (scan_lines rest initial_scan)))"

definition parseFileBlock :: "string \<Rightarrow> CodeChange option" where
  "parseFileBlock file = parse_block_lines (split_lines file)"

definition parseDiff :: "string \<Rightarrow> CodeChange list" where
  "parseDiff diff = List.map_filter parseFileBlock (drop 1 (split_files [] 0 diff))"

text \<open>
  \<open>getChanges\<close>: the outcome of the external \<open>git diff\<close> is the argument; a failure is
  wrapped, a diff text is parsed.
\<close>

definition getChanges :: "js_error + string \<Rightarrow> js_error + CodeChange list" where
  "getChanges git_diff =
     (case git_diff of
        Inl error \<Rightarrow> Inl (Error (''Failed to get git changes: '' @ error_message error))
      | Inr diff \<Rightarrow> Inr (parseDiff diff))"

section \<open>Response normalizer\<close>











section \<open>Review aggregator: results and orchestration\<close>

definition initial_categories :: "(string \<times> nat) list" where
  "initial_categories =
     [(''code-quality'', 0), (''security'', 0), (''performance'', 0),
      (''maintainability'', 0), (''style'', 0), (''testing'', 0), (''documentation'', 0)]"

text \<open>
  \<open>categories[k] = (categories[k] || 0) + 1\<close> on an object kept as an association list
  in insertion order: an existing key is counted up, a new key is added at the end.
\<close>

fun count_up :: "(string \<times> nat) list \<Rightarrow> string \<Rightarrow> (string \<times> nat) list" where
  "count_up [] k = [(k, 1)]"
| "count_up ((k', n) # rest) k =
     (if k' = k then (k', n + 1) # rest else (k', n) # count_up rest k)"

definition categorizeComments :: "ReviewComment list \<Rightarrow> (string \<times> nat) list" where
  "categorizeComments cs =
     fold (\<lambda>comment counts. count_up counts (prop_key (category comment)))
       cs initial_categories"

text \<open>
  The icons of the summary, as the bytes of the source file's literals. In
  \<open>generateSummary\<close> the variable \<open>summary\<close> of the source is \<open>report\<close>, and the sort,
  stable and by descending count, is a stable sort on the negated count.
\<close>

definition icon_ok :: string where
  "icon_ok = [CHR 0xC3, CHR 0xA2, CHR 0xC5, CHR 0x93, CHR 0xE2, CHR 0x80, CHR 0xA6]"

definition icon_review :: string where
  "icon_review =
     [CHR 0xC3, CHR 0xB0, CHR 0xC5, CHR 0xB8, CHR 0xC2, CHR 0xA4, CHR 0xE2, CHR 0x80, CHR 0x93]"

definition icon_error :: string where
  "icon_error = [CHR 0xC3, CHR 0xB0, CHR 0xC5, CHR 0xB8, CHR 0xC5, CHR 0xA1, CHR 0xC2, CHR 0xA8]"

definition icon_warning :: string where
  "icon_warning =
     [CHR 0xC3, CHR 0xA2, CHR 0xC5, CHR 0xA1, CHR 0xC2, CHR 0xA0, CHR 0xC3, CHR 0xAF,
      CHR 0xC2, CHR 0xB8]"

definition icon_info :: string where
  "icon_info =
     [CHR 0xC3, CHR 0xA2, CHR 0xE2, CHR 0x80, CHR 0x9E, CHR 0xC2, CHR 0xB9, CHR 0xC3,
      CHR 0xAF, CHR 0xC2, CHR 0xB8]"

definition generateSummary :: "ReviewComment list \<Rightarrow> jsnum \<Rightarrow> string" where
  "generateSummary cs score_value =
     (if length cs = 0 then icon_ok @ '' No issues found. Code looks good!''
      else
        (let errorCount = length (filter (\<lambda>c. severity c = Some ''error'') cs);
             warningCount = length (filter (\<lambda>c. severity c = Some ''warning'') cs);
             infoCount = length (filter (\<lambda>c. severity c = Some ''info'') cs);
             report = icon_review @ '' AI Code Review Summary (Score: ''
                        @ show_num score_value @ ''/100)\<newline>\<newline>'';
             report = (if errorCount > 0
                       then report @ icon_error @ '' '' @ show_nat errorCount
                              @ '' error(s) found\<newline>''
                       else report);
             report = (if warningCount > 0
                       then report @ icon_warning @ '' '' @ show_nat warningCount
                              @ '' warning(s) found\<newline>''
                       else report);
             report = (if infoCount > 0
                       then report @ icon_info @ '' '' @ show_nat infoCount
                              @ '' info item(s) found\<newline>''
                       else report);
             topCategories =
               map fst
                 (take 3
                   (sort_key (\<lambda>entry. - int (snd entry))
                     (filter (\<lambda>entry. snd entry > 0) (categorizeComments cs))))
         in if length topCategories > 0
            then report @ ''\<newline>Main areas of concern: '' @ join '', '' topCategories
            else report))"

definition buildResult :: "ReviewConfig \<Rightarrow> ReviewComment list \<Rightarrow> ReviewResult" where
  "buildResult config cs =
     \<lparr> comments = cs,
       summary = generateSummary cs (calculateScore cs),
       approved = shouldApprove config cs,
       score = calculateScore cs,
       categories = categorizeComments cs \<rparr>"

definition createEmptyResult :: "string \<Rightarrow> ReviewResult" where
  "createEmptyResult msg =
     \<lparr> comments = [], summary = msg, approved = True, score = Num 100,
       categories =
         [(''code-quality'', 0), (''security'', 0), (''performance'', 0),
          (''maintainability'', 0), (''style'', 0), (''testing'', 0),
          (''documentation'', 0)] \<rparr>"

definition filterReviewableChanges ::
  "(string \<Rightarrow> string \<Rightarrow> bool) \<Rightarrow> ReviewConfig \<Rightarrow> CodeChange list \<Rightarrow> CodeChange list" where
  "filterReviewableChanges mm config changes =
     (let fileFilter =
            new_FileFilter (case ignorePatterns config of None \<Rightarrow> [] | Some ps \<Rightarrow> ps) []
      in filter (\<lambda>change. shouldReview mm fileFilter (change_file change)) changes)"

definition buildCodeContext :: "CodeChange \<Rightarrow> string" where
  "buildCodeContext change =
     (let context = ''File: '' @ change_file change @ ''\<newline>'';
          context = context @ ''Language: '' @ getLanguage (change_file change)
                      @ ''\<newline>\<newline>''
      in fold (\<lambda>hunk context.
                 context @ ''@@ -'' @ show_num (oldStart hunk) @ '','' @ show_num (oldLines hunk)
                   @ '' +'' @ show_num (newStart hunk) @ '','' @ show_num (newLines hunk)
                   @ '' @@\<newline>'' @ join ''\<newline>'' (lines hunk) @ ''\<newline>\<newline>'')
           (hunks change) context)"

definition getDefaultPrompt :: string where
  \<open>getDefaultPrompt =
     join ''\<newline>''
      [''You are an expert code reviewer. Review the provided code changes and identify issues.'',
       '''',
       ''Focus on:'',
       ''- Code quality and best practices'',
       ''- Security vulnerabilities'',
       ''- Performance issues'',
       ''- Maintainability concerns'',
       ''- Style consistency'',
       ''- Testing needs'',
       ''- Documentation'',
       '''',
       ''Return feedback as JSON array with this structure:'',
       ''['',
       ''  {'',
       ''    "file": "path/to/file",'',
       ''    "line": 10,'',
       ''    "message": "Issue description",'',
       ''    "severity": "error|warning|info",'',
       ''    "category": "code-quality|security|performance|maintainability|style|testing|documentation",'',
       ''    "suggestion": "Optional improvement suggestion"'',
       ''  }'',
       '']'']\<close>

definition buildPrompt :: "string option \<Rightarrow> string option \<Rightarrow> string" where
  "buildPrompt reviewPrompt codingStandards =
     (let prompt = or_else reviewPrompt getDefaultPrompt
      in case codingStandards of
           None \<Rightarrow> prompt
         | Some standards \<Rightarrow>
             if standards = [] then prompt
             else prompt @ ''\<newline>\<newline>Coding Standards to follow:\<newline>'' @ standards)"

text \<open>
  \<open>ProviderFactory.create\<close>: the process environment is the parameter \<open>getenv\<close>. An
  absent \<open>aiProvider\<close> prints as \<open>undefined\<close> in the messages.
\<close>

datatype provider = OpenAIProvider string | AnthropicProvider string

definition getApiKey :: "string \<Rightarrow> (string \<Rightarrow> string option) \<Rightarrow> js_error + string" where
  "getApiKey provider_name getenv =
     (let envKey = (if provider_name = ''openai'' then ''OPENAI_API_KEY''
                    else ''ANTHROPIC_API_KEY'')
      in case getenv envKey of
           None \<Rightarrow> Inl (Error (envKey @ '' environment variable is required for ''
                                @ provider_name @ '' provider''))
         | Some apiKey \<Rightarrow>
             if apiKey = []
             then Inl (Error (envKey @ '' environment variable is required for ''
                               @ provider_name @ '' provider''))
             else Inr apiKey)"

definition ProviderFactory_create ::
  "ReviewConfig \<Rightarrow> (string \<Rightarrow> string option) \<Rightarrow> js_error + provider" where
  "ProviderFactory_create config getenv =
     (let provider_name = prop_key (aiProvider config)
      in case getApiKey provider_name getenv of
           Inl error \<Rightarrow> Inl error
         | Inr apiKey \<Rightarrow>
             if provider_name = ''openai'' then Inr (OpenAIProvider apiKey)
             else if provider_name = ''anthropic'' then Inr (AnthropicProvider apiKey)
             else Inl (Error (''Unsupported AI provider: '' @ provider_name)))"

text \<open>
  The comment that replaces a file's review when the provider call throws.
\<close>

definition failure_comment :: "string \<Rightarrow> js_error \<Rightarrow> ReviewComment" where
  "failure_comment path error =
     \<lparr> comment_file = Some path, comment_line = Some (Num 1),
       message = Some (''Failed to review file: '' @ error_message error),
       severity = Some ''warning'', category = Some ''code-quality'', suggestion = None \<rparr>"

text \<open>
  The provider's \<open>review\<close> is a network call: the parameter \<open>review\<close>, which takes the
  provider, the code context, the prompt, the configuration and the state of the
  outside world \<open>w\<close>, and gives the outcome (\<open>Inl\<close> a thrown error) and the next state.
  Every call is recorded: the file, the two texts sent, the outcome. The \<open>try\<close> block
  of the loop also holds \<open>validateAndFilterComments\<close>, which throws nothing on a list of
  comments, so the \<open>catch\<close> branch is the branch of a failed call.
\<close>

record provider_call =
  call_file :: string
  call_code :: string
  call_prompt :: string
  call_outcome :: "js_error + ReviewComment list"

fun review_loop ::
  "(provider \<Rightarrow> string \<Rightarrow> string \<Rightarrow> ReviewConfig \<Rightarrow> 'w \<Rightarrow> (js_error + ReviewComment list) \<times> 'w) \<Rightarrow>
   provider \<Rightarrow> ReviewConfig \<Rightarrow> string option \<Rightarrow> string option \<Rightarrow> CodeChange list \<Rightarrow>
   ReviewComment list \<times> provider_call list \<times> 'w \<Rightarrow>
   ReviewComment list \<times> provider_call list \<times> 'w" where
  "review_loop review provider config reviewPrompt codingStandards [] st = st"
| "review_loop review provider config reviewPrompt codingStandards (change # rest)
     (allComments, calls, w) =
     (let code = buildCodeContext change;
          prompt = buildPrompt reviewPrompt codingStandards
      in case review provider code prompt config w of
           (outcome, w') \<Rightarrow>
             (let new_comments =
                    (case outcome of
                       Inr reviewed \<Rightarrow>
                         validateAndFilterComments config reviewed (change_file change)
                     | Inl error \<Rightarrow> [failure_comment (change_file change) error]);
                  call = \<lparr> call_file = change_file change, call_code = code,
                           call_prompt = prompt, call_outcome = outcome \<rparr>
              in review_loop review provider config reviewPrompt codingStandards rest
                   (allComments @ new_comments, calls @ [call], w')))"

text \<open>
  \<open>reviewChanges\<close>. Besides the provider, the outside world enters through the outcome
  of \<open>git diff\<close> and the two optional texts the configuration loader found (coding
  standards, review prompt). The test \<open>reviewableChanges.length === 0\<close> is the case
  distinction on the filtered list. The result is the returned \<open>ReviewResult\<close> or the
  thrown error, the record of provider calls, and the final state of the outside world.
\<close>

definition reviewChanges ::
  "(string \<Rightarrow> string \<Rightarrow> bool) \<Rightarrow>
   (provider \<Rightarrow> string \<Rightarrow> string \<Rightarrow> ReviewConfig \<Rightarrow> 'w \<Rightarrow> (js_error + ReviewComment list) \<times> 'w) \<Rightarrow>
   (string \<Rightarrow> string option) \<Rightarrow> ReviewConfig \<Rightarrow> js_error + string \<Rightarrow>
   string option \<Rightarrow> string option \<Rightarrow> 'w \<Rightarrow>
   (js_error + ReviewResult) \<times> provider_call list \<times> 'w" where
  "reviewChanges mm review getenv config git_diff codingStandards reviewPrompt w =
     (case getChanges git_diff of
        Inl error \<Rightarrow> (Inl (Error (''Review failed: '' @ error_message error)), [], w)
      | Inr changes \<Rightarrow>
          (case filterReviewableChanges mm config changes of
             [] \<Rightarrow> (Inr (createEmptyResult ''No reviewable changes found''), [], w)
           | change # rest \<Rightarrow>
               (case ProviderFactory_create config getenv of
                  Inl error \<Rightarrow>
                    (Inl (Error (''Review failed: '' @ error_message error)), [], w)
                | Inr provider \<Rightarrow>
                    (case review_loop review provider config reviewPrompt codingStandards
                            (change # rest) ([], [], w) of
                       (allComments, calls, w') \<Rightarrow>
                         (Inr (buildResult config allComments), calls, w')))))"

section \<open>Sample inputs\<close>

definition sample_comment :: "string \<Rightarrow> ReviewComment" where
  "sample_comment sev =
     \<lparr> comment_file = Some ''src/app.ts'', comment_line = Some (Num 3),
       message = Some ''Avoid any'', severity = Some sev,
       category = Some ''style'', suggestion = None \<rparr>"

definition sample_config :: "string option \<Rightarrow> bool \<Rightarrow> ReviewConfig" where
  "sample_config threshold auto =
     \<lparr> aiProvider = Some ''openai'', model = None, maxTokens = Some 2000,
       codingStandardsPath = None, reviewPromptPath = None,
       ignorePatterns = Some [], severityThreshold = threshold,
       autoApprove = Some auto, requireApprovalFor = Some [''error''] \<rparr>"

text \<open>
  A small glob matcher that stands in for \<open>minimatch\<close> in the worked examples. It
  knows the pattern forms of the default ignore list: literal characters, \<open>*\<close> for a
  run of characters inside one path segment, and \<open>**\<close> as a whole segment for any
  further segments.
\<close>

fun split_slash :: "string \<Rightarrow> string list" where
  "split_slash [] = [[]]"
| "split_slash (c # cs) =
     (if c = CHR ''/'' then [] # split_slash cs
      else (case split_slash cs of l # ls \<Rightarrow> (c # l) # ls | [] \<Rightarrow> [[c]]))"

fun segment_match :: "string \<Rightarrow> string \<Rightarrow> bool" where
  "segment_match [] s = (s = [])"
| "segment_match (p # ps) [] = (p = CHR ''*'' \<and> segment_match ps [])"
| "segment_match (p # ps) (c # cs) =
     (if p = CHR ''*'' then segment_match ps (c # cs) \<or> segment_match (p # ps) cs
      else p = c \<and> segment_match ps cs)"

fun segments_match :: "string list \<Rightarrow> string list \<Rightarrow> bool" where
  "segments_match [] fs = (fs = [])"
| "segments_match (p # ps) [] = False"
| "segments_match (p # ps) (f # fs) =
     (if p = ''**'' then (if ps = [] then True
                          else segments_match ps (f # fs) \<or> segments_match (p # ps) fs)
      else segment_match p f \<and> segments_match ps fs)"

definition sample_glob :: "string \<Rightarrow> string \<Rightarrow> bool" where
  "sample_glob filePath pattern =
     segments_match (split_slash pattern) (split_slash filePath)"

text \<open>
  A file block with a valid hunk header, a malformed one, and lines after each; the
  hunk of the header \<open>@@ -1 +1 @@\<close>; the state of the scan right after that header.
\<close>

definition sample_block :: string where
  "sample_block =
     '' a/f.ts b/f.ts\<newline>@@ -1 +1 @@\<newline>+a\<newline>@@ bad @@\<newline>+x''"

definition sample_hunk :: GitHunk where
  "sample_hunk =
     \<lparr> oldStart = Num 1, oldLines = Num 1, newStart = Num 1, newLines = Num 1,
       lines = [] \<rparr>"

definition open_hunk_state :: scan_state where
  "open_hunk_state =
     \<lparr> scan_additions = [], scan_deletions = [], scan_context = [], hunk_refs = [],
       heap = [sample_hunk], currentHunk = Some 0, inHunk = True \<rparr>"






definition sample_diff :: string where
  "sample_diff =
     ''diff --git a/src/app.ts b/src/app.ts\<newline>@@ -1 +1 @@\<newline>-a\<newline>+b\<newline>'' @
     ''diff --git a/src/util.ts b/src/util.ts\<newline>@@ -3,2 +3,3 @@\<newline> x\<newline>+y\<newline>''"

definition ignored_diff :: string where
  "ignored_diff =
     ''diff --git a/node_modules/x.js b/node_modules/x.js\<newline>@@ -1 +1 @@\<newline>+b\<newline>'' @
     ''diff --git a/logo.png b/logo.png\<newline>@@ -1 +1 @@\<newline>+y\<newline>''"

text \<open>
  A provider that answers its first call with one warning and fails on every later
  call; the state of the outside world is the number of calls made.
\<close>

definition sample_review ::
  "provider \<Rightarrow> string \<Rightarrow> string \<Rightarrow> ReviewConfig \<Rightarrow> nat \<Rightarrow> (js_error + ReviewComment list) \<times> nat" where
  "sample_review p code prompt config n =
     (if n = 0 then (Inr [sample_comment ''warning''], Suc n)
      else (Inl (Error ''timeout''), Suc n))"

definition sample_env :: "string \<Rightarrow> string option" where
  "sample_env k = (if k = ''OPENAI_API_KEY'' then Some ''sk-test'' else None)"

section \<open>Verified properties\<close>

subsection \<open>Scoring\<close>

lemma valid_severity:
  "isValidComment c \<Longrightarrow>
   severity c = Some ''info'' \<or> severity c = Some ''warning'' \<or> severity c = Some ''error''"
  by (cases "severity c") (auto simp: isValidComment_def known_severities_def)

lemma sample_comment_valid:
  "sev \<in> {''info'', ''warning'', ''error''} \<Longrightarrow> isValidComment (sample_comment sev)"
  by (auto simp: isValidComment_def sample_comment_def known_severities_def
      known_categories_def)

lemma weight_of_valid:
  "isValidComment c \<Longrightarrow>
   of_prop (obj_get weights (severity c)) = Num (spec_weight (severity c))"
  using valid_severity[of c] by (auto simp: obj_get_def weights_def)

lemma fold_penalty:
  "\<forall>c\<in>set cs. isValidComment c \<Longrightarrow>
   fold (\<lambda>comment sum. js_plus sum (of_prop (obj_get weights (severity comment)))) cs (Num a)
     = Num (a + (\<Sum>c\<leftarrow>cs. spec_weight (severity c)))"
proof (induction cs arbitrary: a)
  case Nil
  show ?case by simp
next
  case (Cons c cs)
  have v: "isValidComment c" using Cons.prems by simp
  have rest: "\<forall>c\<in>set cs. isValidComment c" using Cons.prems by simp
  show ?case
    by (simp add: weight_of_valid[OF v] Cons.IH[OF rest] add.assoc)
qed

text \<open>
  Claim C1. On a list of comments that all pass validation, the score is
  \<open>100\<close> plus the sum of the per-comment weights (error \<open>-10\<close>, warning \<open>-5\<close>,
  info \<open>-1\<close>), clamped to \<open>[0, 100]\<close>; the empty list scores exactly \<open>100\<close>, and the
  score is a number between \<open>0\<close> and \<open>100\<close>.
\<close>

theorem calculateScore_is_clamped_sum:
  assumes "\<forall>c\<in>set cs. isValidComment c"
  shows "calculateScore cs =
           Num (spec_clamp (100 + (\<Sum>c\<leftarrow>cs. spec_weight (severity c))) 0 100)
       \<and> calculateScore [] = Num 100
       \<and> (\<exists>n. calculateScore cs = Num n \<and> 0 \<le> n \<and> n \<le> 100)"
proof -
  have main: "calculateScore cs =
                Num (spec_clamp (100 + (\<Sum>c\<leftarrow>cs. spec_weight (severity c))) 0 100)"
  proof (cases cs)
    case Nil
    then show ?thesis by (simp add: calculateScore_def spec_clamp_def)
  next
    case (Cons c cs')
    then have ne: "length cs \<noteq> 0" by simp
    show ?thesis
      using ne
      by (simp add: calculateScore_def fold_penalty[OF assms] spec_clamp_def Let_def
          min_def max_def)
  qed
  have empty: "calculateScore [] = Num 100" by (simp add: calculateScore_def)
  have range: "0 \<le> spec_clamp x 0 100 \<and> spec_clamp x 0 100 \<le> 100" for x
    by (simp add: spec_clamp_def)
  show ?thesis using main empty range by blast
qed

theorem calculateScore_is_clamped_sum_witness:
  "isValidComment (sample_comment ''error'')
   \<and> isValidComment (sample_comment ''warning'')
   \<and> isValidComment (sample_comment ''info'')
   \<and> calculateScore
       [sample_comment ''error'', sample_comment ''warning'', sample_comment ''info'']
     = Num 84"
proof -
  have h: "\<forall>c\<in>set [sample_comment ''error'', sample_comment ''warning'',
                    sample_comment ''info'']. isValidComment c"
    by (simp add: sample_comment_valid)
  have score: "calculateScore
       [sample_comment ''error'', sample_comment ''warning'', sample_comment ''info'']
     = Num 84"
    using calculateScore_is_clamped_sum[OF h]
    by (simp add: sample_comment_def spec_clamp_def)
  show ?thesis
    using score by (simp add: sample_comment_valid)
qed

subsection \<open>Approval\<close>

text \<open>
  Claim C2. With no comments and auto-approve enabled the result is approved; in every
  other case it is approved exactly when no comment carries a severity listed in
  \<open>requireApprovalFor\<close>, whose default from the configuration loader is \<open>["error"]\<close>.
  With that list, comments that are all warnings are approved, and one more comment of
  severity error makes the result not approved.
\<close>

theorem shouldApprove_policy:
  "(autoApprove config = Some True \<and> cs = [] \<longrightarrow> shouldApprove config cs)
   \<and> (\<not> (autoApprove config = Some True \<and> cs = []) \<longrightarrow>
        (shouldApprove config cs \<longleftrightarrow>
           (\<forall>c\<in>set cs. \<forall>ss. requireApprovalFor config = Some ss \<longrightarrow>
                           \<not> js_includes ss (severity c))))
   \<and> (requireApprovalFor config = None \<longrightarrow>
        requireApprovalFor (mergeWithDefaults config) = Some [''error''])
   \<and> (requireApprovalFor config = Some [''error''] \<and>
        (\<forall>c\<in>set cs. severity c = Some ''warning'') \<and> severity e = Some ''error'' \<longrightarrow>
        shouldApprove config cs \<and> \<not> shouldApprove config (cs @ [e]))"
proof -
  have blocking: "filter P xs = [] \<longleftrightarrow> (\<forall>x\<in>set xs. \<not> P x)"
    for P :: "ReviewComment \<Rightarrow> bool" and xs
    by (simp add: filter_empty_conv)
  have a: "autoApprove config = Some True \<and> cs = [] \<longrightarrow> shouldApprove config cs"
    by (simp add: shouldApprove_def)
  have b: "\<not> (autoApprove config = Some True \<and> cs = []) \<longrightarrow>
        (shouldApprove config cs \<longleftrightarrow>
           (\<forall>c\<in>set cs. \<forall>ss. requireApprovalFor config = Some ss \<longrightarrow>
                           \<not> js_includes ss (severity c)))"
    by (cases "requireApprovalFor config") (auto simp: shouldApprove_def blocking)
  have c: "requireApprovalFor config = None \<longrightarrow>
        requireApprovalFor (mergeWithDefaults config) = Some [''error'']"
    by (simp add: mergeWithDefaults_def)
  have d: "requireApprovalFor config = Some [''error''] \<and>
        (\<forall>c\<in>set cs. severity c = Some ''warning'') \<and> severity e = Some ''error'' \<longrightarrow>
        shouldApprove config cs \<and> \<not> shouldApprove config (cs @ [e])"
    by (auto simp: shouldApprove_def blocking)
  show ?thesis using a b c d by blast
qed

theorem shouldApprove_policy_witness:
  "shouldApprove (sample_config None True) []
   \<and> shouldApprove (sample_config None False)
       [sample_comment ''warning'', sample_comment ''warning'']
   \<and> \<not> shouldApprove (sample_config None False)
       ([sample_comment ''warning'', sample_comment ''warning''] @ [sample_comment ''error''])
   \<and> requireApprovalFor (mergeWithDefaults ((sample_config None False)
        \<lparr> requireApprovalFor := None \<rparr>)) = Some [''error'']"
  using shouldApprove_policy[of "sample_config None True" "[]" "sample_comment ''error''"]
    shouldApprove_policy[of "sample_config None False"
      "[sample_comment ''warning'', sample_comment ''warning'']" "sample_comment ''error''"]
    shouldApprove_policy[of "(sample_config None False)\<lparr> requireApprovalFor := None \<rparr>"
      "[]" "sample_comment ''error''"]
  by (simp add: sample_config_def sample_comment_def)

subsection \<open>Severity threshold\<close>

text \<open>
  Claim C3. A comment that passes validation is kept by the aggregator exactly when the
  rank of its severity (info 1, warning 2, error 3) is at least the rank of the
  configured threshold (low 1, medium 2, high 3); a configuration without a threshold
  is read as \<open>low\<close>, under which every valid comment is kept.
\<close>

theorem meetsSeverityThreshold_rank:
  assumes "isValidComment c"
  shows "(\<forall>t. severityThreshold config = Some t \<and> t \<in> {''low'', ''medium'', ''high''} \<longrightarrow>
            (meetsSeverityThreshold config c \<longleftrightarrow>
               spec_severity_rank (severity c) \<ge> spec_threshold_rank t))
       \<and> (severityThreshold config = None \<longrightarrow>
            (meetsSeverityThreshold config c \<longleftrightarrow>
               spec_severity_rank (severity c) \<ge> spec_threshold_rank ''low'')
            \<and> meetsSeverityThreshold config c)
       \<and> (validateAndFilterComments config [c] filePath \<noteq> [] \<longleftrightarrow>
            meetsSeverityThreshold config c)"
proof -
  have sev: "severity c = Some ''info'' \<or> severity c = Some ''warning'' \<or>
             severity c = Some ''error''"
    using assms by (rule valid_severity)
  have a: "\<forall>t. severityThreshold config = Some t \<and> t \<in> {''low'', ''medium'', ''high''} \<longrightarrow>
            (meetsSeverityThreshold config c \<longleftrightarrow>
               spec_severity_rank (severity c) \<ge> spec_threshold_rank t)"
    using sev
    by (auto simp: meetsSeverityThreshold_def obj_get_def severityOrder_def
        thresholdOrder_def)
  have b: "severityThreshold config = None \<longrightarrow>
            (meetsSeverityThreshold config c \<longleftrightarrow>
               spec_severity_rank (severity c) \<ge> spec_threshold_rank ''low'')
            \<and> meetsSeverityThreshold config c"
    using sev
    by (auto simp: meetsSeverityThreshold_def obj_get_def severityOrder_def
        thresholdOrder_def)
  have c: "validateAndFilterComments config [c] filePath \<noteq> [] \<longleftrightarrow>
           meetsSeverityThreshold config c"
    using assms by (simp add: validateAndFilterComments_def)
  show ?thesis using a b c by blast
qed

theorem meetsSeverityThreshold_rank_witness:
  "isValidComment (sample_comment ''warning'')
   \<and> meetsSeverityThreshold (sample_config (Some ''medium'') False) (sample_comment ''warning'')
   \<and> \<not> meetsSeverityThreshold (sample_config (Some ''high'') False) (sample_comment ''warning'')
   \<and> meetsSeverityThreshold (sample_config None False) (sample_comment ''warning'')
   \<and> validateAndFilterComments (sample_config (Some ''high'') False)
       [sample_comment ''warning''] ''src/app.ts'' = []"
proof -
  have v: "isValidComment (sample_comment ''warning'')"
    by (simp add: sample_comment_valid)
  have sev: "severity (sample_comment ''warning'') = Some ''warning''"
    by (simp add: sample_comment_def)
  have thr: "severityThreshold (sample_config t a) = t" for t a
    by (simp add: sample_config_def)
  note m = meetsSeverityThreshold_rank[OF v, of "sample_config (Some ''medium'') False" "''src/app.ts''"]
  note h = meetsSeverityThreshold_rank[OF v, of "sample_config (Some ''high'') False" "''src/app.ts''"]
  note n = meetsSeverityThreshold_rank[OF v, of "sample_config None False" "''src/app.ts''"]
  have 1: "meetsSeverityThreshold (sample_config (Some ''medium'') False) (sample_comment ''warning'')"
    using m by (simp add: thr sev)
  have 2: "\<not> meetsSeverityThreshold (sample_config (Some ''high'') False) (sample_comment ''warning'')"
    using h by (simp add: thr sev)
  have 3: "meetsSeverityThreshold (sample_config None False) (sample_comment ''warning'')"
    using n by (simp add: thr sev)
  have 4: "validateAndFilterComments (sample_config (Some ''high'') False)
       [sample_comment ''warning''] ''src/app.ts'' = []"
    using h 2 by blast
  show ?thesis using v 1 2 3 4 by blast
qed

subsection \<open>File filter\<close>

text \<open>
  Claim C8. \<open>shouldReview\<close> rejects a path that matches an ignore pattern (the defaults
  followed by the user's); otherwise, with a non-empty include list, it accepts exactly
  the paths matching an include pattern; otherwise it accepts exactly the paths whose
  lower-cased extension is in the allow-list. Hence, for a matcher under which
  \<open>node_modules/x.js\<close> matches \<open>node_modules/**\<close>, that path is rejected whatever the
  user's patterns are; for a matcher under which \<open>src/app.ts\<close> matches no default
  pattern, it is accepted under the defaults; and a path that matches one of the user's
  ignore patterns is rejected, whatever its extension.
\<close>

theorem shouldReview_policy:
  "(shouldReview mm (new_FileFilter user inc) path \<longleftrightarrow>
      \<not> (\<exists>p\<in>set (getDefaultIgnorePatterns @ user). mm path p) \<and>
      (if inc \<noteq> [] then (\<exists>p\<in>set inc. mm path p)
       else toLowerCase (extname path) \<in> set reviewableExtensions))
   \<and> (mm ''node_modules/x.js'' ''node_modules/**'' \<longrightarrow>
        \<not> shouldReview mm (new_FileFilter user inc) ''node_modules/x.js'')
   \<and> ((\<forall>p\<in>set getDefaultIgnorePatterns. \<not> mm ''src/app.ts'' p) \<longrightarrow>
        shouldReview mm (new_FileFilter [] []) ''src/app.ts'')
   \<and> (p \<in> set user \<and> mm path p \<longrightarrow> \<not> shouldReview mm (new_FileFilter user inc) path)"
proof -
  have policy: "shouldReview mm (new_FileFilter u i) f \<longleftrightarrow>
      \<not> (\<exists>p\<in>set (getDefaultIgnorePatterns @ u). mm f p) \<and>
      (if i \<noteq> [] then (\<exists>p\<in>set i. mm f p)
       else toLowerCase (extname f) \<in> set reviewableExtensions)" for u i f
    by (simp add: shouldReview_def isIgnored_def isIncluded_def isReviewableFile_def
        new_FileFilter_def list_ex_iff)
  have dflt: "''node_modules/**'' \<in> set getDefaultIgnorePatterns"
    by (simp add: getDefaultIgnorePatterns_def)
  have a: "mm ''node_modules/x.js'' ''node_modules/**'' \<longrightarrow>
        \<not> shouldReview mm (new_FileFilter user inc) ''node_modules/x.js''"
    using dflt by (auto simp: policy)
  have ext: "toLowerCase (extname ''src/app.ts'') \<in> set reviewableExtensions"
    by code_simp
  have b: "(\<forall>p\<in>set getDefaultIgnorePatterns. \<not> mm ''src/app.ts'' p) \<longrightarrow>
        shouldReview mm (new_FileFilter [] []) ''src/app.ts''"
    using ext by (simp add: policy)
  have c: "p \<in> set user \<and> mm path p \<longrightarrow> \<not> shouldReview mm (new_FileFilter user inc) path"
    by (auto simp: policy)
  show ?thesis using policy[of user inc path] a b c by blast
qed

theorem shouldReview_policy_witness:
  "\<not> shouldReview sample_glob (new_FileFilter [''docs/**''] []) ''node_modules/x.js''
   \<and> shouldReview sample_glob (new_FileFilter [] []) ''src/app.ts''
   \<and> isReviewableFile ''src/generated/api.ts''
   \<and> \<not> shouldReview sample_glob (new_FileFilter [''src/generated/**''] [])
         ''src/generated/api.ts''"
proof -
  have h1: "sample_glob ''node_modules/x.js'' ''node_modules/**''"
    by code_simp
  have h2: "\<forall>p\<in>set getDefaultIgnorePatterns. \<not> sample_glob ''src/app.ts'' p"
    by code_simp
  have h3: "''src/generated/**'' \<in> set [''src/generated/**''] \<and>
            sample_glob ''src/generated/api.ts'' ''src/generated/**''"
    by code_simp
  have r: "isReviewableFile ''src/generated/api.ts''"
    by code_simp
  note t1 = shouldReview_policy[of sample_glob "[''docs/**'']" "[]" "''node_modules/x.js''"
      "''docs/**''"]
  note t2 = shouldReview_policy[of sample_glob "[''src/generated/**'']" "[]"
      "''src/generated/api.ts''" "''src/generated/**''"]
  show ?thesis using h1 h2 h3 r t1 t2 by blast
qed

subsection \<open>Diff parser\<close>

text \<open>
  The splitting functions never give the empty list, and the scan keeps its addresses
  inside the heap, so the cases marked unreachable in the definitions are so, and every
  read \<open>heap st ! a\<close> is a read of an allocated hunk.
\<close>

lemma split_lines_nonempty: "split_lines s \<noteq> []"
  by (induction s) (auto split: list.splits)

lemma split_files_nonempty: "split_files passed skip s \<noteq> []"
  by (induction passed skip s rule: split_files.induct) (auto split: list.splits)

lemma scan_ok_initial: "scan_ok initial_scan"
  by (simp add: scan_ok_def initial_scan_def)

lemma scan_ok_push: "scan_ok st \<Longrightarrow> scan_ok (push_current st)"
  by (auto simp: scan_ok_def push_current_def split: option.splits)

lemma scan_ok_line: "scan_ok st \<Longrightarrow> scan_ok (scan_line line st)"
proof (cases "startsWith line ''@@''")
  case True
  assume "scan_ok st"
  then have ok: "scan_ok (push_current st)" by (rule scan_ok_push)
  show ?thesis
  proof (cases "hunk_header_match line")
    case None
    then show ?thesis using True ok by (simp add: scan_line_def)
  next
    case (Some m)
    have "list_all (\<lambda>a. a < Suc (length (heap (push_current st)))) (hunk_refs (push_current st))"
      using ok by (auto simp: scan_ok_def list_all_iff)
    then show ?thesis using True Some ok by (simp add: scan_line_def scan_ok_def Let_def)
  qed
next
  case False
  assume "scan_ok st"
  then show ?thesis
    using False by (auto simp: scan_line_def scan_ok_def Let_def split: option.splits)
qed

lemma scan_ok_lines: "scan_ok st \<Longrightarrow> scan_ok (scan_lines ls st)"
  unfolding scan_lines_def by (induction ls arbitrary: st) (auto intro: scan_ok_line)

text \<open>
  Claim C6. The hunk header \<open>@@ -10,5 +12,7 @@\<close> is parsed to old start 10, old length
  5, new start 12, new length 7, and \<open>@@ -1 +1 @@\<close> to old start 1 and new start 1 with
  both omitted lengths read as 1; the same values arrive in the hunks of a parsed diff.
\<close>

theorem hunk_header_examples:
  "map_option new_hunk (hunk_header_match ''@@ -10,5 +12,7 @@'') =
     Some \<lparr> oldStart = Num 10, oldLines = Num 5, newStart = Num 12, newLines = Num 7,
            lines = [] \<rparr>
   \<and> map_option new_hunk (hunk_header_match ''@@ -1 +1 @@'') =
     Some \<lparr> oldStart = Num 1, oldLines = Num 1, newStart = Num 1, newLines = Num 1,
            lines = [] \<rparr>
   \<and> map hunks
       (parseDiff ''diff --git a/f.ts b/f.ts\<newline>@@ -10,5 +12,7 @@\<newline>@@ -1 +1 @@'') =
     [[\<lparr> oldStart = Num 10, oldLines = Num 5, newStart = Num 12, newLines = Num 7,
          lines = [] \<rparr>,
       \<lparr> oldStart = Num 1, oldLines = Num 1, newStart = Num 1, newLines = Num 1,
          lines = [] \<rparr>]]"
  by code_simp

lemma malformed_header_without_open_hunk:
  assumes "currentHunk st = None" and "startsWith line ''@@''"
    and "hunk_header_match line = None" and "\<not> startsWith next_line ''@@''"
  shows "scan_line line st = st \<and> scan_line next_line (scan_line line st) = st"
  using assms by (simp add: scan_line_def push_current_def)

text \<open>
  Claim C4 says that after a line starting with \<open>@@\<close> that is not a valid hunk header
  the following lines attach to no hunk and to no addition, deletion or context list.
  The code does so only while no hunk has been opened in the block
  (\<open>malformed_header_without_open_hunk\<close>). Evaluated on a block in which the malformed
  header follows an open hunk, it pushes that hunk, leaves it current, attaches the
  following \<open>+x\<close> to it and to the addition list, and pushes it a second time at the
  end of the block.
\<close>

theorem malformed_header_keeps_hunk_open:
  "parseFileBlock sample_block =
     Some \<lparr> change_file = ''f.ts'', additions = [''a'', ''x''], deletions = [],
            context_lines = [],
            hunks = [sample_hunk\<lparr> lines := [''+a'', ''+x''] \<rparr>,
                     sample_hunk\<lparr> lines := [''+a'', ''+x''] \<rparr>] \<rparr>"
  by code_simp

lemma open_hunk_state_reached:
  "scan_line ''@@ -1 +1 @@'' initial_scan = open_hunk_state"
  by code_simp

text \<open>
  Claim C5 as stated has the marker removed from the text that enters the hunk's line
  list. The code appends the line as it stands: after \<open>+a\<close> in an open hunk the
  hunk's lines are \<open>["+a"]\<close>, not \<open>["a"]\<close>, while the addition list is \<open>["a"]\<close>.
\<close>

theorem hunk_lines_keep_marker:
  "scan_line ''+a'' open_hunk_state =
     open_hunk_state\<lparr> heap := [sample_hunk\<lparr> lines := [''+a''] \<rparr>],
                       scan_additions := [''a''] \<rparr>
   \<and> lines (heap (scan_line ''+a'' open_hunk_state) ! 0) \<noteq> [''a'']"
  by code_simp

text \<open>
  Claim C5, amended. For a line that does not start with \<open>@@\<close>, read while a hunk is
  open (current and not yet pushed onto the change): the line is appended, marker
  included, to the hunk's line list; if it starts with \<open>+\<close> but not \<open>+++\<close>, the line
  without its first character is appended to the addition list; if it starts with
  \<open>-\<close> but not \<open>---\<close>, to the deletion list; if it starts with a blank, to the context
  list; the other two lists stay as they are.
\<close>

theorem scan_line_classifies:
  assumes "currentHunk st = Some a" and "inHunk st" and "a < length (heap st)"
    and "a \<notin> set (hunk_refs st)" and "\<not> startsWith line ''@@''"
  shows "lines (heap (scan_line line st) ! a) = lines (heap st ! a) @ [line]
       \<and> (startsWith line ''+'' \<and> \<not> startsWith line ''+++'' \<longrightarrow>
            scan_additions (scan_line line st) = scan_additions st @ [drop 1 line] \<and>
            scan_deletions (scan_line line st) = scan_deletions st \<and>
            scan_context (scan_line line st) = scan_context st)
       \<and> (startsWith line ''-'' \<and> \<not> startsWith line ''---'' \<longrightarrow>
            scan_deletions (scan_line line st) = scan_deletions st @ [drop 1 line] \<and>
            scan_additions (scan_line line st) = scan_additions st \<and>
            scan_context (scan_line line st) = scan_context st)
       \<and> (startsWith line '' '' \<longrightarrow>
            scan_context (scan_line line st) = scan_context st @ [drop 1 line] \<and>
            scan_additions (scan_line line st) = scan_additions st \<and>
            scan_deletions (scan_line line st) = scan_deletions st)"
proof -
  have plus_minus: "\<not> (startsWith line ''+'' \<and> startsWith line ''-'')"
    by (cases line) (auto simp: startsWith_def)
  have plus_blank: "\<not> (startsWith line ''+'' \<and> startsWith line '' '')"
    by (cases line) (auto simp: startsWith_def)
  have minus_blank: "\<not> (startsWith line ''-'' \<and> startsWith line '' '')"
    by (cases line) (auto simp: startsWith_def)
  show ?thesis
    using assms plus_minus plus_blank minus_blank
    by (auto simp: scan_line_def Let_def)
qed

theorem scan_line_classifies_witness:
  "lines (heap (scan_line ''+a'' open_hunk_state) ! 0) = [''+a'']
   \<and> scan_additions (scan_line ''+a'' open_hunk_state) = [''a'']
   \<and> scan_deletions (scan_line ''-b'' open_hunk_state) = [''b'']
   \<and> scan_context (scan_line '' c'' open_hunk_state) = [''c'']"
proof -
  have st: "currentHunk open_hunk_state = Some 0" "inHunk open_hunk_state"
    "0 < length (heap open_hunk_state)" "0 \<notin> set (hunk_refs open_hunk_state)"
    "lines (heap open_hunk_state ! 0) = []" "scan_additions open_hunk_state = []"
    "scan_deletions open_hunk_state = []" "scan_context open_hunk_state = []"
    by (simp_all add: open_hunk_state_def sample_hunk_def)
  have l: "\<not> startsWith ''+a'' ''@@''" "\<not> startsWith ''-b'' ''@@''" "\<not> startsWith '' c'' ''@@''"
    "startsWith ''+a'' ''+''" "\<not> startsWith ''+a'' ''+++''"
    "startsWith ''-b'' ''-''" "\<not> startsWith ''-b'' ''---''" "startsWith '' c'' '' ''"
    by (simp_all add: startsWith_def)
  show ?thesis
    using scan_line_classifies[OF st(1-4) l(1)] scan_line_classifies[OF st(1-4) l(2)]
      scan_line_classifies[OF st(1-4) l(3)] l st
    by simp
qed

subsection \<open>Response normalizer\<close>









subsection \<open>Orchestration\<close>

text \<open>
  Claim C9. When the diff is obtained and none of the parsed changes passes the file
  filter, \<open>reviewChanges\<close> returns the result with no comments, score 100, approval,
  all seven category counts zero and the summary \<open>No reviewable changes found\<close>; the
  record of provider calls is empty and the outside world is as it was.
\<close>

theorem reviewChanges_no_reviewable:
  assumes "git_diff = Inr diff"
    and "\<forall>change\<in>set (parseDiff diff).
           \<not> shouldReview mm
               (new_FileFilter (case ignorePatterns config of None \<Rightarrow> [] | Some ps \<Rightarrow> ps) [])
               (change_file change)"
  shows "reviewChanges mm review getenv config git_diff codingStandards reviewPrompt w =
           (Inr \<lparr> comments = [], summary = ''No reviewable changes found'',
                  approved = True, score = Num 100,
                  categories =
                    [(''code-quality'', 0), (''security'', 0), (''performance'', 0),
                     (''maintainability'', 0), (''style'', 0), (''testing'', 0),
                     (''documentation'', 0)] \<rparr>,
            [], w)"
proof -
  have none: "filterReviewableChanges mm config (parseDiff diff) = []"
    using assms(2) by (simp add: filterReviewableChanges_def filter_empty_conv)
  show ?thesis
    by (simp add: reviewChanges_def getChanges_def assms(1) none createEmptyResult_def)
qed

theorem reviewChanges_no_reviewable_witness:
  "map change_file (parseDiff ignored_diff) = [''node_modules/x.js'', ''logo.png'']
   \<and> reviewChanges sample_glob sample_review sample_env (sample_config None False)
         (Inr ignored_diff) None None 0 =
       (Inr \<lparr> comments = [], summary = ''No reviewable changes found'',
              approved = True, score = Num 100,
              categories =
                [(''code-quality'', 0), (''security'', 0), (''performance'', 0),
                 (''maintainability'', 0), (''style'', 0), (''testing'', 0),
                 (''documentation'', 0)] \<rparr>,
        [], 0)"
proof -
  have files: "map change_file (parseDiff ignored_diff) = [''node_modules/x.js'', ''logo.png'']"
    by code_simp
  have rejected:
    "list_all (\<lambda>f. \<not> shouldReview sample_glob (new_FileFilter [] []) f)
       [''node_modules/x.js'', ''logo.png'']"
    by code_simp
  have "\<forall>f\<in>set (map change_file (parseDiff ignored_diff)).
          \<not> shouldReview sample_glob (new_FileFilter [] []) f"
    using rejected unfolding files by (simp add: list_all_iff)
  then have hyp: "\<forall>change\<in>set (parseDiff ignored_diff).
           \<not> shouldReview sample_glob
               (new_FileFilter (case ignorePatterns (sample_config None False) of
                                  None \<Rightarrow> [] | Some ps \<Rightarrow> ps) [])
               (change_file change)"
    by (simp add: sample_config_def)
  show ?thesis
    using files reviewChanges_no_reviewable[OF refl hyp] by simp
qed

lemma review_loop_keeps_failures:
  assumes "review_loop review provider config reviewPrompt codingStandards changes
             (allComments, calls, w) = (allComments', calls', w')"
    and "\<forall>call\<in>set calls. \<forall>error. call_outcome call = Inl error \<longrightarrow>
           failure_comment (call_file call) error \<in> set allComments"
  shows "\<forall>call\<in>set calls'. \<forall>error. call_outcome call = Inl error \<longrightarrow>
           failure_comment (call_file call) error \<in> set allComments'"
  using assms
proof (induction changes arbitrary: allComments calls w)
  case Nil
  then show ?case by simp
next
  case (Cons change rest)
  obtain outcome w1 where call:
    "review provider (buildCodeContext change) (buildPrompt reviewPrompt codingStandards)
       config w = (outcome, w1)"
    by (cases "review provider (buildCodeContext change)
                 (buildPrompt reviewPrompt codingStandards) config w")
  define new_comments where "new_comments =
    (case outcome of
       Inr reviewed \<Rightarrow> validateAndFilterComments config reviewed (change_file change)
     | Inl error \<Rightarrow> [failure_comment (change_file change) error])"
  define this_call where "this_call =
    \<lparr> call_file = change_file change, call_code = buildCodeContext change,
      call_prompt = buildPrompt reviewPrompt codingStandards, call_outcome = outcome \<rparr>"
  have step: "review_loop review provider config reviewPrompt codingStandards rest
                (allComments @ new_comments, calls @ [this_call], w1)
              = (allComments', calls', w')"
    using Cons.prems(1) call by (simp add: Let_def new_comments_def this_call_def)
  have inv: "\<forall>c\<in>set (calls @ [this_call]). \<forall>error. call_outcome c = Inl error \<longrightarrow>
               failure_comment (call_file c) error \<in> set (allComments @ new_comments)"
    using Cons.prems(2) by (auto simp: new_comments_def this_call_def)
  show ?case by (rule Cons.IH[OF step inv])
qed

lemma high_threshold_drops_warnings:
  assumes "severityThreshold config = Some ''high''"
  shows "\<forall>c\<in>set (validateAndFilterComments config reviewed path).
           severity c \<noteq> Some ''warning''"
  using assms
  by (auto simp: validateAndFilterComments_def meetsSeverityThreshold_def obj_get_def
      severityOrder_def thresholdOrder_def)

text \<open>
  Claim C10. A run in which a provider call threw returns a result, and the substitute
  comment of that call (the file's path, line 1, severity warning, category
  code-quality) is in the result's comment list, whatever the configured threshold.
  Under the threshold \<open>high\<close> no comment of severity warning that went through
  \<open>validateAndFilterComments\<close> survives, so the substitute is there without having
  gone through validation and the threshold filter.
\<close>

theorem failure_comment_bypasses_filters:
  assumes "reviewChanges mm review getenv config git_diff codingStandards reviewPrompt w =
             (outcome, calls, w')"
    and "call \<in> set calls" and "call_outcome call = Inl error"
  shows "(\<exists>result. outcome = Inr result \<and>
            failure_comment (call_file call) error \<in> set (comments result))
       \<and> comment_file (failure_comment (call_file call) error) = Some (call_file call)
       \<and> comment_line (failure_comment (call_file call) error) = Some (Num 1)
       \<and> severity (failure_comment (call_file call) error) = Some ''warning''
       \<and> category (failure_comment (call_file call) error) = Some ''code-quality''
       \<and> (severityThreshold config = Some ''high'' \<longrightarrow>
            (\<forall>reviewed path. \<forall>c\<in>set (validateAndFilterComments config reviewed path).
               severity c \<noteq> Some ''warning''))"
proof -
  obtain changes where ch: "getChanges git_diff = Inr changes"
    using assms(1,2) by (cases "getChanges git_diff") (auto simp: reviewChanges_def)
  obtain change rest where
    reviewable: "filterReviewableChanges mm config changes = change # rest"
    using assms(1,2) ch
    by (cases "filterReviewableChanges mm config changes") (auto simp: reviewChanges_def)
  obtain provider where pr: "ProviderFactory_create config getenv = Inr provider"
    using assms(1,2) ch reviewable
    by (cases "ProviderFactory_create config getenv") (auto simp: reviewChanges_def)
  obtain allComments where loop:
    "review_loop review provider config reviewPrompt codingStandards (change # rest)
       ([], [], w) = (allComments, calls, w')"
    and res: "outcome = Inr (buildResult config allComments)"
    using assms(1) ch reviewable pr
    by (cases "review_loop review provider config reviewPrompt codingStandards
                 (change # rest) ([], [], w)")
      (auto simp: reviewChanges_def)
  have "\<forall>call\<in>set calls. \<forall>error. call_outcome call = Inl error \<longrightarrow>
           failure_comment (call_file call) error \<in> set allComments"
    by (rule review_loop_keeps_failures[OF loop]) simp
  then have member: "\<exists>result. outcome = Inr result \<and>
            failure_comment (call_file call) error \<in> set (comments result)"
    using assms(2,3) res by (simp add: buildResult_def)
  have fields: "comment_file (failure_comment (call_file call) error) = Some (call_file call)
       \<and> comment_line (failure_comment (call_file call) error) = Some (Num 1)
       \<and> severity (failure_comment (call_file call) error) = Some ''warning''
       \<and> category (failure_comment (call_file call) error) = Some ''code-quality''"
    by (simp add: failure_comment_def)
  show ?thesis
    using member fields high_threshold_drops_warnings[of config] by blast
qed

theorem failure_comment_bypasses_filters_witness:
  "\<exists>result calls.
     reviewChanges sample_glob sample_review sample_env (sample_config (Some ''high'') False)
       (Inr sample_diff) None (Some ''Review the change.'') 0 = (Inr result, calls, 2)
     \<and> map call_file calls = [''src/app.ts'', ''src/util.ts'']
     \<and> map call_outcome calls = [Inr [sample_comment ''warning''], Inl (Error ''timeout'')]
     \<and> failure_comment ''src/util.ts'' (Error ''timeout'') \<in> set (comments result)
     \<and> comments result = [failure_comment ''src/util.ts'' (Error ''timeout'')]"
proof -
  define config where "config = sample_config (Some ''high'') False"
  define result where
    "result = buildResult config [failure_comment ''src/util.ts'' (Error ''timeout'')]"
  define prompt where "prompt = buildPrompt (Some ''Review the change.'') None"
  define calls where "calls =
    [\<lparr> call_file = ''src/app.ts'',
        call_code = buildCodeContext (parseDiff sample_diff ! 0),
        call_prompt = prompt, call_outcome = Inr [sample_comment ''warning''] \<rparr>,
     \<lparr> call_file = ''src/util.ts'',
        call_code = buildCodeContext (parseDiff sample_diff ! 1),
        call_prompt = prompt, call_outcome = Inl (Error ''timeout'') \<rparr>]"
  have run: "reviewChanges sample_glob sample_review sample_env config
       (Inr sample_diff) None (Some ''Review the change.'') 0 = (Inr result, calls, 2)"
    unfolding config_def result_def calls_def prompt_def by code_simp
  have member: "calls ! 1 \<in> set calls" by (simp add: calls_def)
  have outcome: "call_outcome (calls ! 1) = Inl (Error ''timeout'')" by (simp add: calls_def)
  have path: "call_file (calls ! 1) = ''src/util.ts''" by (simp add: calls_def)
  have "failure_comment ''src/util.ts'' (Error ''timeout'') \<in> set (comments result)"
    using failure_comment_bypasses_filters[OF run member outcome] path by simp
  moreover have "map call_file calls = [''src/app.ts'', ''src/util.ts'']"
    by (simp add: calls_def)
  moreover have "map call_outcome calls =
      [Inr [sample_comment ''warning''], Inl (Error ''timeout'')]"
    by (simp add: calls_def)
  moreover have "comments result = [failure_comment ''src/util.ts'' (Error ''timeout'')]"
    by (simp add: result_def buildResult_def)
  ultimately show ?thesis
    using run unfolding config_def
    by (intro exI[of _ result] exI[of _ calls]) simp
qed

end
